theory Spec2Isabelle
  imports Main "HOL-Library.Word"
begin

section \<open>Backend: the Socket.IO endpoints (app/api/endpoints.py)\<close>

subsection \<open>Values, exceptions, emissions, log records\<close>

text \<open>
  Event arguments and payloads are Python values as they come off the wire. A Python
  \<^verbatim>\<open>dict\<close> with string keys is an association list; the dict literals of the
  handlers have distinct keys.
\<close>

datatype pyval =
    PNone
  | PBool bool
  | PInt int
  | PStr string
  | PList "pyval list"
  | PDict "(string \<times> pyval) list"

text \<open>\<^verbatim>\<open>isinstance(data, dict)\<close>\<close>

fun isinstance_dict :: "pyval \<Rightarrow> bool" where
  "isinstance_dict (PDict kvs) = True"
| "isinstance_dict v = False"

text \<open>\<^verbatim>\<open>key in data\<close>, evaluated only after the \<^verbatim>\<open>isinstance\<close> test succeeded.\<close>

fun dict_contains :: "string \<Rightarrow> pyval \<Rightarrow> bool" where
  "dict_contains k (PDict kvs) = (k \<in> fst ` set kvs)"
| "dict_contains k v = False"

text \<open>\<^verbatim>\<open>data.get(key)\<close>: the value bound to the key, \<^verbatim>\<open>None\<close> when there is none.\<close>

fun dict_get :: "pyval \<Rightarrow> string \<Rightarrow> pyval" where
  "dict_get (PDict kvs) k = (case map_of kvs k of Some v \<Rightarrow> v | None \<Rightarrow> PNone)"
| "dict_get v k = PNone"

text \<open>
  The exception classes the handlers distinguish:
  \<^verbatim>\<open>socketio.exceptions.SocketIOError\<close> is an \<^verbatim>\<open>Exception\<close>; an
  \<^verbatim>\<open>Exception\<close> is a \<^verbatim>\<open>BaseException\<close>; some \<^verbatim>\<open>BaseException\<close>s
  (task cancellation, interpreter exit) are not \<^verbatim>\<open>Exception\<close>s.
\<close>

datatype exn =
    SocketIOError string
  | OtherException string
  | BaseExceptionOnly string

fun isinstance_SocketIOError :: "exn \<Rightarrow> bool" where
  "isinstance_SocketIOError (SocketIOError m) = True"
| "isinstance_SocketIOError x = False"

fun isinstance_Exception :: "exn \<Rightarrow> bool" where
  "isinstance_Exception (BaseExceptionOnly m) = False"
| "isinstance_Exception x = True"

type_synonym sid = string

text \<open>
  Where \<^verbatim>\<open>sio.emit\<close> sends: \<^verbatim>\<open>room=sid\<close> (the private room of one connection),
  no keyword (every connection), or \<^verbatim>\<open>skip_sid=sid\<close> (every connection but one).
\<close>

datatype target = Room sid | Everyone | SkipSid sid

datatype emission = Emit (event: string) (payload: pyval) (dest: target)

text \<open>Whether the open connection \<open>c\<close> is sent an emission with this target.\<close>

fun receives :: "sid \<Rightarrow> target \<Rightarrow> bool" where
  "receives c (Room r) = (c = r)"
| "receives c Everyone = True"
| "receives c (SkipSid s) = (c \<noteq> s)"

datatype level = DEBUG | INFO | WARNING | ERROR

text \<open>
  A log call is recorded with its level and the pieces of its f-string: literal text
  (connection ids are strings and are interpolated as they are), and the values and
  exceptions that Python would render with \<^verbatim>\<open>str\<close>.
\<close>

datatype frag = Lit string | Val pyval | Exc exn

subsection \<open>The world the handlers act on\<close>

text \<open>
  \<open>registry\<close> is the state of \<^verbatim>\<open>manager\<close>, \<open>sent\<close> what \<^verbatim>\<open>sio.emit\<close> has
  delivered so far, \<open>logged\<close> the calls made on \<^verbatim>\<open>logger\<close>. \<open>faults\<close> scripts the
  transport: \<open>faults w k\<close> is the exception the \<open>k\<close>-th coming call of
  \<^verbatim>\<open>sio.emit\<close> raises, \<open>None\<close> when it succeeds; a call that raises delivers
  nothing. A handler is run from its first statement to its return: what the event loop
  does for other connections while the handler awaits is outside this model.
\<close>

record world =
  registry :: "sid \<rightharpoonup> string"
  sent :: "emission list"
  logged :: "(level \<times> frag list) list"
  faults :: "nat \<Rightarrow> exn option"

type_synonym 'a io = "world \<Rightarrow> (exn + 'a) \<times> world"

text \<open>
  The two modules the endpoints import and that are not part of the sources at hand,
  \<^verbatim>\<open>app.services.connection_manager\<close> and \<^verbatim>\<open>app.services.ai_assistant\<close>, are
  parameters of every handler.
\<close>

record services =
  ai_sid :: sid
  generate_dummy_response :: "pyval \<Rightarrow> sid \<Rightarrow> exn + pyval"
  manager_connect :: "sid \<Rightarrow> (sid \<rightharpoonup> string) \<Rightarrow> exn + (sid \<rightharpoonup> string)"
  manager_disconnect :: "sid \<Rightarrow> (sid \<rightharpoonup> string) \<Rightarrow> exn + (sid \<rightharpoonup> string)"

definition bind :: "'a io \<Rightarrow> ('a \<Rightarrow> 'b io) \<Rightarrow> 'b io" where
  "bind m f w = (case m w of (Inl x, w') \<Rightarrow> (Inl x, w') | (Inr a, w') \<Rightarrow> f a w')"

text \<open>
  \<^verbatim>\<open>try: body except C1 as e: h1 except C2 as e: h2\<close>: the first clause whose class
  the exception is an instance of handles it; with no such clause it propagates.
\<close>

fun handle :: "((exn \<Rightarrow> bool) \<times> (exn \<Rightarrow> 'a io)) list \<Rightarrow> exn \<Rightarrow> 'a io" where
  "handle [] x w = (Inl x, w)"
| "handle ((c, h) # cs) x w = (if c x then h x w else handle cs x w)"

definition try_except :: "'a io \<Rightarrow> ((exn \<Rightarrow> bool) \<times> (exn \<Rightarrow> 'a io)) list \<Rightarrow> 'a io" where
  "try_except body clauses w =
     (case body w of (Inl x, w') \<Rightarrow> handle clauses x w' | (Inr a, w') \<Rightarrow> (Inr a, w'))"

definition sio_emit :: "string \<Rightarrow> pyval \<Rightarrow> target \<Rightarrow> unit io" where
  "sio_emit ev p t w =
     (case faults w 0 of
        None \<Rightarrow> (Inr (), w\<lparr>sent := sent w @ [Emit ev p t], faults := (\<lambda>k. faults w (Suc k))\<rparr>)
      | Some x \<Rightarrow> (Inl x, w\<lparr>faults := (\<lambda>k. faults w (Suc k))\<rparr>))"

definition logger :: "level \<Rightarrow> frag list \<Rightarrow> unit io" where
  "logger l m w = (Inr (), w\<lparr>logged := logged w @ [(l, m)]\<rparr>)"

definition await_generate :: "services \<Rightarrow> pyval \<Rightarrow> sid \<Rightarrow> pyval io" where
  "await_generate svc txt s w = (generate_dummy_response svc txt s, w)"

definition await_manager ::
  "(sid \<Rightarrow> (sid \<rightharpoonup> string) \<Rightarrow> exn + (sid \<rightharpoonup> string)) \<Rightarrow> sid \<Rightarrow> unit io" where
  "await_manager op s w =
     (case op s (registry w) of Inl x \<Rightarrow> (Inl x, w) | Inr r \<Rightarrow> (Inr (), w\<lparr>registry := r\<rparr>))"

subsection \<open>The handlers\<close>

definition validation_error_payload :: pyval where
  "validation_error_payload =
     PDict [(''type'', PStr ''validation_error''),
            (''message'', PStr (''Invalid message format. Expected {'' @ [CHR 0x27] @ ''text''
               @ [CHR 0x27] @ '': '' @ [CHR 0x27] @ ''your message'' @ [CHR 0x27] @ ''}''))]"

definition server_error_payload :: pyval where
  "server_error_payload =
     PDict [(''type'', PStr ''server_error''),
            (''message'', PStr ''A server error occurred while processing your message.'')]"

definition unexpected_error_payload :: pyval where
  "unexpected_error_payload =
     PDict [(''type'', PStr ''unexpected_error''),
            (''message'', PStr ''An unexpected server error occurred.'')]"

text \<open>
  \<^verbatim>\<open>chat_message(sid, data)\<close>. \<open>now\<close> is what
  \<^verbatim>\<open>datetime.datetime.utcnow().isoformat()\<close> returns when the user message is built.
\<close>

definition chat_message :: "services \<Rightarrow> string \<Rightarrow> sid \<Rightarrow> pyval \<Rightarrow> unit io" where
  "chat_message svc now s data =
     try_except
       (bind (logger INFO [Lit ''Message from '', Lit s, Lit '': '', Val data]) (\<lambda>_.
        if \<not> isinstance_dict data \<or> \<not> dict_contains ''text'' data then
          bind (logger WARNING [Lit ''Invalid message format from '', Lit s, Lit ''. Data: '', Val data]) (\<lambda>_.
          sio_emit ''error'' validation_error_payload (Room s))
        else
          let user_message_text = dict_get data ''text'';
              user_message_payload =
                PDict [(''sender_sid'', PStr s), (''text'', user_message_text),
                       (''timestamp'', PStr (now @ ''Z'')), (''is_ai'', PBool False)]
          in
          bind (logger INFO [Lit ''Broadcasting user message from '', Lit s, Lit '': '',
                             Val user_message_payload]) (\<lambda>_.
          bind (sio_emit ''new_message'' user_message_payload Everyone) (\<lambda>_.
          bind (logger INFO [Lit ''Generating AI response for '', Lit s, Lit '' based on: '',
                             Val user_message_text]) (\<lambda>_.
          bind (await_generate svc user_message_text s) (\<lambda>ai_response.
          bind (logger INFO [Lit ''Sending AI response to all clients: '', Val ai_response]) (\<lambda>_.
          sio_emit ''new_message'' ai_response Everyone)))))))
       [(isinstance_SocketIOError, \<lambda>e.
           bind (logger ERROR [Lit ''Socket.IO error processing chat_message for SID '', Lit s,
                               Lit '': '', Exc e]) (\<lambda>_.
           try_except (sio_emit ''error'' server_error_payload (Room s))
             [(isinstance_Exception, \<lambda>emit_exception.
                 logger ERROR [Lit ''Failed to emit server_error to SID '', Lit s, Lit '': '',
                               Exc emit_exception])])),
        (isinstance_Exception, \<lambda>e.
           bind (logger ERROR [Lit ''Unexpected error processing chat_message for SID '', Lit s,
                               Lit '': '', Exc e]) (\<lambda>_.
           try_except (sio_emit ''error'' unexpected_error_payload (Room s))
             [(isinstance_Exception, \<lambda>emit_exception.
                 logger ERROR [Lit ''Failed to emit unexpected_error to SID '', Lit s, Lit '': '',
                               Exc emit_exception])]))]"

text \<open>
  \<^verbatim>\<open>connect(sid, environ)\<close>. \<open>now\<close> is what
  \<^verbatim>\<open>datetime.datetime.utcnow().isoformat()\<close> returns when the welcome is built.
\<close>

definition connect :: "services \<Rightarrow> string \<Rightarrow> sid \<Rightarrow> pyval \<Rightarrow> unit io" where
  "connect svc now s environ =
     try_except
       (bind (await_manager (manager_connect svc) s) (\<lambda>_.
        bind (logger INFO [Lit ''Client connected: '', Lit s, Lit '', Environment: '', Val environ]) (\<lambda>_.
        bind (sio_emit ''server_registered_sid'' (PDict [(''sid'', PStr s)]) (Room s)) (\<lambda>_.
        bind (logger INFO [Lit (''Emitted '' @ [CHR 0x27] @ ''server_registered_sid'' @ [CHR 0x27]
                                 @ '' with SID ''), Lit s, Lit '' to client '', Lit s]) (\<lambda>_.
        bind (sio_emit ''message''
                (PDict [(''type'', PStr ''status''), (''data'', PStr (''Welcome '' @ s @ ''!''))])
                (Room s)) (\<lambda>_.
        let ai_welcome =
              PDict [(''sender_sid'', PStr (ai_sid svc)),
                     (''text'', PStr ''Hello! I am your friendly AI assistant. Ask me anything!''),
                     (''timestamp'', PStr (now @ ''Z'')), (''is_ai'', PBool True)]
        in sio_emit ''new_message'' ai_welcome (Room s)))))))
       [(isinstance_Exception, \<lambda>e.
           bind (logger ERROR [Lit ''Error during connect for SID '', Lit s, Lit '': '', Exc e]) (\<lambda>_.
           try_except
             (sio_emit ''error'' (PDict [(''message'', PStr ''Connection error occurred.'')]) (Room s))
             [(isinstance_Exception, \<lambda>emit_exception.
                 logger ERROR [Lit ''Failed to emit connection error to SID '', Lit s, Lit '': '',
                               Exc emit_exception])]))]"

text \<open>\<^verbatim>\<open>disconnect(sid)\<close>\<close>

definition disconnect :: "services \<Rightarrow> sid \<Rightarrow> unit io" where
  "disconnect svc s =
     try_except
       (bind (await_manager (manager_disconnect svc) s) (\<lambda>_.
        bind (logger INFO [Lit ''Client disconnected: '', Lit s]) (\<lambda>_.
        sio_emit ''message''
          (PDict [(''type'', PStr ''status''), (''data'', PStr (''User '' @ s @ '' has left.''))])
          (SkipSid s))))
       [(isinstance_Exception, \<lambda>e.
           logger ERROR [Lit ''Error during disconnect for SID '', Lit s, Lit '': '', Exc e])]"

text \<open>\<^verbatim>\<open>any_event(event, sid, data)\<close>, registered under \<^verbatim>\<open>'*'\<close>.\<close>

definition any_event :: "string \<Rightarrow> sid \<Rightarrow> pyval \<Rightarrow> unit io" where
  "any_event ev s data =
     logger DEBUG [Lit (''Unhandled event '' @ [CHR 0x27]), Lit ev,
                   Lit ([CHR 0x27] @ '' from SID ''), Lit s,
                   Lit ([CHR 0x27] @ '' with data: ''), Val data]"

text \<open>\<^verbatim>\<open>error(sid, data)\<close>\<close>

definition error :: "sid \<Rightarrow> pyval \<Rightarrow> unit io" where
  "error s data =
     logger ERROR [Lit ''Server-side error event triggered for SID '', Lit s, Lit '': '', Val data]"

text \<open>
  The module registers four handlers under their own names (\<^verbatim>\<open>@sio.event\<close>) and
  \<^verbatim>\<open>any_event\<close> as the catch-all (\<^verbatim>\<open>@sio.on('*')\<close>); an event is given to the handler
  registered under its name, and to the catch-all when there is none.
\<close>

definition trigger_event :: "services \<Rightarrow> string \<Rightarrow> string \<Rightarrow> sid \<Rightarrow> pyval \<Rightarrow> unit io" where
  "trigger_event svc now ev s data =
     (if ev = ''connect'' then connect svc now s data
      else if ev = ''disconnect'' then disconnect svc s
      else if ev = ''chat_message'' then chat_message svc now s data
      else if ev = ''error'' then error s data
      else any_event ev s data)"

subsection \<open>The services behind the endpoints\<close>

text \<open>
  Modelled from the spec: \<open>register\<close> of the Connection Registry
  (\<^verbatim>\<open>app/services/connection_manager.py\<close> is missing from the sources). It inserts an entry
  for the connection id with the current time and overwrites the time of an entry that is
  already there.
\<close>

definition register :: "sid \<Rightarrow> string \<Rightarrow> (sid \<rightharpoonup> string) \<Rightarrow> (sid \<rightharpoonup> string)" where
  "register c t reg = reg(c \<mapsto> t)"

text \<open>
  Modelled from the spec: \<open>deregister\<close> of the Connection Registry (missing with
  \<^verbatim>\<open>app/services/connection_manager.py\<close>). It removes the entry and does nothing when the
  id is absent.
\<close>

definition deregister :: "sid \<Rightarrow> (sid \<rightharpoonup> string) \<Rightarrow> (sid \<rightharpoonup> string)" where
  "deregister c reg = reg(c := None)"

text \<open>
  Modelled from the spec: \<open>generate\<close> of the Response Generator
  (\<^verbatim>\<open>app/services/ai_assistant.py\<close> is missing from the sources). It picks one reply of a
  fixed pool, \<open>pick\<close> being the random draw, and falls back to a fixed default string.
\<close>

definition generate :: "string list \<Rightarrow> string \<Rightarrow> nat \<Rightarrow> pyval \<Rightarrow> string" where
  "generate pool fallback pick input_text = (if pick < length pool then pool ! pick else fallback)"

text \<open>
  Modelled from the spec: the AI ChatMessage the gateway builds from the generator's reply
  (\<^verbatim>\<open>generate_dummy_response\<close> of the missing \<^verbatim>\<open>app/services/ai_assistant.py\<close>): sender the
  synthetic AI marker, the reply as text, the current time, \<open>is_ai\<close> true. It never fails.
\<close>

definition spec_generate_dummy_response ::
  "sid \<Rightarrow> string list \<Rightarrow> string \<Rightarrow> nat \<Rightarrow> string \<Rightarrow> pyval \<Rightarrow> sid \<Rightarrow> exn + pyval" where
  "spec_generate_dummy_response marker pool fallback pick now input_text s =
     Inr (PDict [(''sender_sid'', PStr marker),
                 (''text'', PStr (generate pool fallback pick input_text)),
                 (''timestamp'', PStr now), (''is_ai'', PBool True)])"

text \<open>
  Modelled from the spec: the two missing modules together, \<^verbatim>\<open>manager.connect\<close> being
  \<open>register\<close> at the current time and \<^verbatim>\<open>manager.disconnect\<close> being \<open>deregister\<close>.
\<close>

definition spec_services :: "sid \<Rightarrow> string list \<Rightarrow> string \<Rightarrow> nat \<Rightarrow> string \<Rightarrow> services" where
  "spec_services marker pool fallback pick now =
     \<lparr>ai_sid = marker,
      generate_dummy_response = spec_generate_dummy_response marker pool fallback pick now,
      manager_connect = (\<lambda>c reg. Inr (register c now reg)),
      manager_disconnect = (\<lambda>c reg. Inr (deregister c reg))\<rparr>"

subsection \<open>Reading ChatMessage payloads\<close>

text \<open>A ChatMessage is the payload of a \<^verbatim>\<open>new_message\<close> event.\<close>

definition is_chat_message :: "emission \<Rightarrow> bool" where
  "is_chat_message e = (event e = ''new_message'')"

definition sender_sid :: "emission \<Rightarrow> pyval" where
  "sender_sid e = dict_get (payload e) ''sender_sid''"

definition is_ai :: "emission \<Rightarrow> pyval" where
  "is_ai e = dict_get (payload e) ''is_ai''"

definition message_text :: "emission \<Rightarrow> pyval" where
  "message_text e = dict_get (payload e) ''text''"

definition is_ai_chat_message :: "emission \<Rightarrow> bool" where
  "is_ai_chat_message e = (is_chat_message e \<and> is_ai e = PBool True)"

text \<open>
  The origin of a ChatMessage handled for connection \<open>s\<close> is consistent when it is flagged
  as AI and carries the AI marker, or is not flagged and carries \<open>s\<close>.
\<close>

definition origin_consistent :: "services \<Rightarrow> sid \<Rightarrow> emission \<Rightarrow> bool" where
  "origin_consistent svc s e =
     (is_ai e = PBool True \<and> sender_sid e = PStr (ai_sid svc)
      \<or> is_ai e = PBool False \<and> sender_sid e = PStr s)"

text \<open>The event names listed in the external-interface table of the specification.\<close>

definition spec_interface_events :: "string list" where
  "spec_interface_events = [''server_registered_sid'', ''new_message'', ''chat_message'', ''error'']"

text \<open>A world with nothing sent or logged, no connection and a transport that never fails.\<close>

definition quiet :: world where
  "quiet = \<lparr>registry = Map.empty, sent = [], logged = [], faults = (\<lambda>k. None)\<rparr>"

section \<open>Frontend: the message input (components/MessageInput.tsx)\<close>

text \<open>A JavaScript string is a sequence of UTF-16 code units.\<close>

type_synonym js_string = "16 word list"

text \<open>
  The code units \<^verbatim>\<open>String.prototype.trim\<close> strips: ECMAScript's WhiteSpace (tab, VT, FF,
  space, NBSP, BOM and the space separators of Unicode) and LineTerminator (LF, CR, LS, PS).
\<close>

definition is_white_space :: "16 word \<Rightarrow> bool" where
  "is_white_space c =
     (c \<in> set [0x0009, 0x000A, 0x000B, 0x000C, 0x000D, 0x0020, 0x00A0, 0x1680,
                0x2000, 0x2001, 0x2002, 0x2003, 0x2004, 0x2005, 0x2006, 0x2007, 0x2008,
                0x2009, 0x200A, 0x2028, 0x2029, 0x202F, 0x205F, 0x3000, 0xFEFF])"

definition trim :: "js_string \<Rightarrow> js_string" where
  "trim s = rev (dropWhile is_white_space (rev (dropWhile is_white_space s)))"

text \<open>
  The component: its state \<open>text_state\<close> (the \<^verbatim>\<open>text\<close> of \<^verbatim>\<open>useState\<close>), the calls
  made on the \<^verbatim>\<open>onSendMessage\<close> property, and whether the form event had its default
  prevented.
\<close>

record message_input =
  text_state :: js_string
  onSendMessage_calls :: "js_string list"
  default_prevented :: bool

text \<open>\<^verbatim>\<open>handleSubmit(e)\<close>; a string is truthy when it is not empty.\<close>

definition handleSubmit :: "message_input \<Rightarrow> message_input" where
  "handleSubmit c =
     (let c1 = c\<lparr>default_prevented := True\<rparr> in
      if trim (text_state c1) \<noteq> [] then
        c1\<lparr>onSendMessage_calls := onSendMessage_calls c1 @ [trim (text_state c1)],
           text_state := []\<rparr>
      else c1)"

lemmas io_defs = bind_def logger_def try_except_def sio_emit_def await_generate_def await_manager_def

lemma chat_message_invalid_ok:
  assumes "\<not> isinstance_dict data \<or> \<not> dict_contains ''text'' data" and "faults w 0 = None"
  shows "chat_message svc now s data w =
      (Inr (), w\<lparr>logged := logged w @ [(INFO, [Lit ''Message from '', Lit s, Lit '': '', Val data]),
           (WARNING, [Lit ''Invalid message format from '', Lit s, Lit ''. Data: '', Val data])],
         sent := sent w @ [Emit ''error'' validation_error_payload (Room s)],
         faults := (\<lambda>k. faults w (Suc k))\<rparr>)"
  using assms by (auto simp add: chat_message_def io_defs)

lemma chat_message_invalid_private:
  assumes "\<not> isinstance_dict data \<or> \<not> dict_contains ''text'' data"
  shows "\<exists>new. sent (snd (chat_message svc now s data w)) = sent w @ new
           \<and> (\<forall>e \<in> set new. event e = ''error'' \<and> dest e = Room s)"
  using assms
  by (cases "faults w 0"; cases "faults w (Suc 0)") (auto simp add: chat_message_def io_defs split: option.splits)

lemma chat_message_valid_ok:
  assumes "isinstance_dict data" and "dict_contains ''text'' data"
    and "faults w 0 = None" and "generate_dummy_response svc (dict_get data ''text'') s = Inr p"
    and "faults w 1 = None"
  shows "fst (chat_message svc now s data w) = Inr ()"
    and "sent (snd (chat_message svc now s data w)) = sent w @
          [Emit ''new_message'' (PDict [(''sender_sid'', PStr s), (''text'', dict_get data ''text''),
                       (''timestamp'', PStr (now @ ''Z'')), (''is_ai'', PBool False)]) Everyone,
           Emit ''new_message'' p Everyone]"
  using assms by (auto simp add: chat_message_def io_defs Let_def)

text \<open>
  Claim C2. A \<^verbatim>\<open>chat_message\<close> whose payload is a dict with a \<^verbatim>\<open>text\<close> key, handled
  while the transport and the generator do not fail, returns normally and sends exactly two
  events, both \<^verbatim>\<open>new_message\<close> to every connection (the sender included): first the user
  ChatMessage with the sender's id, the submitted text, the timestamp and \<open>is_ai\<close> false, then
  the message the generator returned for that text. For the generator of the specification
  the second message carries the AI marker and \<open>is_ai\<close> true.
\<close>

theorem chat_message_valid_broadcasts:
  assumes "isinstance_dict data" and "dict_contains ''text'' data"
    and "faults w 0 = None" and "faults w 1 = None"
    and "generate_dummy_response svc (dict_get data ''text'') s = Inr p"
  shows "fst (chat_message svc now s data w) = Inr ()
       \<and> sent (snd (chat_message svc now s data w)) = sent w @
          [Emit ''new_message'' (PDict [(''sender_sid'', PStr s), (''text'', dict_get data ''text''),
                       (''timestamp'', PStr (now @ ''Z'')), (''is_ai'', PBool False)]) Everyone,
           Emit ''new_message'' p Everyone]
       \<and> receives s Everyone
       \<and> (generate_dummy_response svc = spec_generate_dummy_response marker pool fallback pick t
            \<longrightarrow> sender_sid (Emit ''new_message'' p Everyone) = PStr marker
              \<and> is_ai (Emit ''new_message'' p Everyone) = PBool True
              \<and> message_text (Emit ''new_message'' p Everyone) =
                   PStr (generate pool fallback pick (dict_get data ''text'')))"
  using chat_message_valid_ok [OF assms(1,2,3,5,4), of now] assms(5)
  by (auto simp add: sender_sid_def is_ai_def message_text_def spec_generate_dummy_response_def)

theorem chat_message_valid_broadcasts_witness:
  "sent (snd (chat_message (spec_services ''AI'' [''Interesting!''] ''Hm.'' 0 ''T1'') ''T0'' ''a''
             (PDict [(''text'', PStr ''hi'')]) quiet)) =
     [Emit ''new_message'' (PDict [(''sender_sid'', PStr ''a''), (''text'', PStr ''hi''),
                       (''timestamp'', PStr ''T0Z''), (''is_ai'', PBool False)]) Everyone,
      Emit ''new_message'' (PDict [(''sender_sid'', PStr ''AI''), (''text'', PStr ''Interesting!''),
                       (''timestamp'', PStr ''T1''), (''is_ai'', PBool True)]) Everyone]
   \<and> is_ai (Emit ''new_message'' (PDict [(''sender_sid'', PStr ''AI''), (''text'', PStr ''Interesting!''),
                       (''timestamp'', PStr ''T1''), (''is_ai'', PBool True)]) Everyone) = PBool True"
  using chat_message_valid_broadcasts [of "PDict [(''text'', PStr ''hi'')]" quiet
      "spec_services ''AI'' [''Interesting!''] ''Hm.'' 0 ''T1''" "''a''"
      "PDict [(''sender_sid'', PStr ''AI''), (''text'', PStr ''Interesting!''),
                       (''timestamp'', PStr ''T1''), (''is_ai'', PBool True)]" "''T0''"
      "''AI''" "[''Interesting!'']" "''Hm.''" 0 "''T1''"]
  by (simp add: quiet_def spec_services_def spec_generate_dummy_response_def generate_def)

text \<open>
  Claim C1 (amended). A \<^verbatim>\<open>chat_message\<close> whose payload is not a dict or has no
  \<^verbatim>\<open>text\<close> key is never broadcast: whatever the transport does, every event the handler
  sends is an \<^verbatim>\<open>error\<close> event to the sender's room; and when the transport accepts it,
  the handler sends exactly one event, the \<^verbatim>\<open>validation_error\<close>, and leaves the registry
  alone. So every broadcast user ChatMessage comes from a dict with a \<^verbatim>\<open>text\<close> key; the
  text itself may be empty.
\<close>

theorem chat_message_invalid_rejected:
  assumes "\<not> isinstance_dict data \<or> \<not> dict_contains ''text'' data"
  shows "(\<exists>new. sent (snd (chat_message svc now s data w)) = sent w @ new
            \<and> (\<forall>e \<in> set new. event e = ''error'' \<and> dest e = Room s))
       \<and> (faults w 0 = None \<longrightarrow>
            fst (chat_message svc now s data w) = Inr ()
          \<and> sent (snd (chat_message svc now s data w)) =
              sent w @ [Emit ''error'' validation_error_payload (Room s)]
          \<and> registry (snd (chat_message svc now s data w)) = registry w)"
  using chat_message_invalid_private [OF assms] chat_message_invalid_ok [OF assms]
  by simp

theorem chat_message_invalid_rejected_witness:
  "\<not> dict_contains ''text'' (PDict []) \<and>
   faults quiet 0 = None \<and>
   sent (snd (chat_message (spec_services ''AI'' [''Interesting!''] ''Hm.'' 0 ''T1'') ''T0'' ''a''
          (PDict []) quiet)) = [Emit ''error'' validation_error_payload (Room ''a'')]"
  using chat_message_invalid_rejected [of "PDict []" "spec_services ''AI'' [''Interesting!''] ''Hm.'' 0 ''T1''"
     "''T0''" "''a''" quiet]
  by (simp add: quiet_def)

text \<open>
  Claim C1 as stated fails: the payload \<^verbatim>\<open>{"text": ""}\<close> passes the check and is broadcast
  with its empty text.
\<close>

theorem chat_message_empty_text_counterexample:
  "sent (snd (chat_message (spec_services ''AI'' [''Interesting!''] ''Hm.'' 0 ''T1'') ''T0'' ''a''
             (PDict [(''text'', PStr [])]) quiet)) =
     [Emit ''new_message'' (PDict [(''sender_sid'', PStr ''a''), (''text'', PStr []),
                       (''timestamp'', PStr ''T0Z''), (''is_ai'', PBool False)]) Everyone,
      Emit ''new_message'' (PDict [(''sender_sid'', PStr ''AI''), (''text'', PStr ''Interesting!''),
                       (''timestamp'', PStr ''T1''), (''is_ai'', PBool True)]) Everyone]"
  by (simp add: chat_message_def io_defs Let_def quiet_def spec_services_def
        spec_generate_dummy_response_def generate_def)


lemma connect_ok:
  assumes "manager_connect svc s (registry w) = Inr r"
    and "faults w 0 = None" and "faults w 1 = None" and "faults w 2 = None"
  shows "fst (connect svc now s environ w) = Inr ()"
    and "registry (snd (connect svc now s environ w)) = r"
    and "sent (snd (connect svc now s environ w)) = sent w @
          [Emit ''server_registered_sid'' (PDict [(''sid'', PStr s)]) (Room s),
           Emit ''message'' (PDict [(''type'', PStr ''status''),
                                    (''data'', PStr (''Welcome '' @ s @ ''!''))]) (Room s),
           Emit ''new_message''
             (PDict [(''sender_sid'', PStr (ai_sid svc)),
                     (''text'', PStr ''Hello! I am your friendly AI assistant. Ask me anything!''),
                     (''timestamp'', PStr (now @ ''Z'')), (''is_ai'', PBool True)]) (Room s)]"
  using assms by (auto simp add: connect_def io_defs Let_def numeral_2_eq_2)

text \<open>
  Claim C3. A connect during which neither the manager nor the transport fails sends three
  events, each to the room of the new connection and so to no other connection: among them
  one \<^verbatim>\<open>server_registered_sid\<close> with the connection's id and one welcome ChatMessage
  flagged \<open>is_ai\<close> with the AI marker as sender. The registry is what the manager returned,
  and holds the connection when the manager is the \<open>register\<close> of the specification.
\<close>

theorem connect_greets_new_connection_only:
  assumes "manager_connect svc s (registry w) = Inr r"
    and "faults w 0 = None" and "faults w 1 = None" and "faults w 2 = None"
  shows "fst (connect svc now s environ w) = Inr ()
       \<and> (\<exists>ack status welcome.
             sent (snd (connect svc now s environ w)) = sent w @ [ack, status, welcome]
           \<and> ack = Emit ''server_registered_sid'' (PDict [(''sid'', PStr s)]) (Room s)
           \<and> is_ai_chat_message welcome \<and> sender_sid welcome = PStr (ai_sid svc)
           \<and> event status \<noteq> ''server_registered_sid'' \<and> \<not> is_chat_message status
           \<and> (\<forall>e \<in> set [ack, status, welcome]. \<forall>c. receives c (dest e) \<longleftrightarrow> c = s))
       \<and> registry (snd (connect svc now s environ w)) = r
       \<and> (r = register s t (registry w) \<longrightarrow> registry (snd (connect svc now s environ w)) s = Some t)"
  using connect_ok [OF assms, of now environ]
  by (simp add: is_ai_chat_message_def is_chat_message_def is_ai_def sender_sid_def register_def)

theorem connect_greets_new_connection_only_witness:
  "manager_connect (spec_services ''AI'' [''Interesting!''] ''Hm.'' 0 ''T1'') ''a'' (registry quiet)
     = Inr (register ''a'' ''T1'' (registry quiet))
   \<and> faults quiet 0 = None \<and> faults quiet 1 = None \<and> faults quiet 2 = None
   \<and> registry (snd (connect (spec_services ''AI'' [''Interesting!''] ''Hm.'' 0 ''T1'') ''T0'' ''a''
                       (PDict []) quiet)) ''a'' = Some ''T1''"
  using connect_greets_new_connection_only [of "spec_services ''AI'' [''Interesting!''] ''Hm.'' 0 ''T1''"
      "''a''" quiet "register ''a'' ''T1'' (registry quiet)" "''T0''" "PDict []" "''T1''"]
  by (simp add: quiet_def spec_services_def register_def)

text \<open>
  Claim C9. On such a connect the second of the three events is named \<^verbatim>\<open>message\<close>, has
  the payload \<^verbatim>\<open>{type: "status", data: "Welcome <sid>!"}\<close> and goes to the new connection
  only; the external-interface table of the specification has no event of that name.
\<close>

theorem connect_emits_status_message:
  assumes "manager_connect svc s (registry w) = Inr r"
    and "faults w 0 = None" and "faults w 1 = None" and "faults w 2 = None"
  shows "sent (snd (connect svc now s environ w)) = sent w @
          [Emit ''server_registered_sid'' (PDict [(''sid'', PStr s)]) (Room s),
           Emit ''message'' (PDict [(''type'', PStr ''status''),
                                    (''data'', PStr (''Welcome '' @ s @ ''!''))]) (Room s),
           Emit ''new_message''
             (PDict [(''sender_sid'', PStr (ai_sid svc)),
                     (''text'', PStr ''Hello! I am your friendly AI assistant. Ask me anything!''),
                     (''timestamp'', PStr (now @ ''Z'')), (''is_ai'', PBool True)]) (Room s)]
       \<and> (\<forall>c. receives c (Room s) \<longleftrightarrow> c = s)
       \<and> ''message'' \<notin> set spec_interface_events"
  using connect_ok(3) [OF assms, of now environ]
  by (simp add: spec_interface_events_def)

theorem connect_emits_status_message_witness:
  "faults quiet 0 = None \<and> faults quiet 1 = None \<and> faults quiet 2 = None
   \<and> map event (sent (snd (connect (spec_services ''AI'' [''Interesting!''] ''Hm.'' 0 ''T1'') ''T0''
                              ''a'' (PDict []) quiet)))
     = [''server_registered_sid'', ''message'', ''new_message'']"
  using connect_emits_status_message [of "spec_services ''AI'' [''Interesting!''] ''Hm.'' 0 ''T1''"
      "''a''" quiet "register ''a'' ''T1'' (registry quiet)" "''T0''" "PDict []"]
  by (simp add: quiet_def spec_services_def)

lemma disconnect_ok:
  assumes "manager_disconnect svc s (registry w) = Inr r" and "faults w 0 = None"
  shows "disconnect svc s w =
      (Inr (), w\<lparr>registry := r,
                  logged := logged w @ [(INFO, [Lit ''Client disconnected: '', Lit s])],
                  sent := sent w @ [Emit ''message'' (PDict [(''type'', PStr ''status''),
                              (''data'', PStr (''User '' @ s @ '' has left.''))]) (SkipSid s)],
                  faults := (\<lambda>k. faults w (Suc k))\<rparr>)"
  using assms by (simp add: disconnect_def io_defs)

lemma disconnect_emit_raises:
  assumes "manager_disconnect svc s (registry w) = Inr r" and "faults w 0 = Some x"
    and "isinstance_Exception x"
  shows "disconnect svc s w =
      (Inr (), w\<lparr>registry := r,
                  logged := logged w @ [(INFO, [Lit ''Client disconnected: '', Lit s]),
                     (ERROR, [Lit ''Error during disconnect for SID '', Lit s, Lit '': '', Exc x])],
                  faults := (\<lambda>k. faults w (Suc k))\<rparr>)"
  using assms by (simp add: disconnect_def io_defs)

text \<open>
  Claim C4 (amended). A disconnect whose deregistration succeeds returns normally with the
  registry the manager returned (without the connection, for the \<open>deregister\<close> of the
  specification). The departure notice is one \<^verbatim>\<open>message\<close> event with the payload
  \<^verbatim>\<open>{type: "status", data: "User <sid> has left."}\<close>, sent to every connection but the
  leaving one. When the transport raises an \<^verbatim>\<open>Exception\<close> instead, nothing is sent, the
  error is logged at level ERROR, and the handler still returns normally with the
  deregistration done.
\<close>

theorem disconnect_notifies_others:
  assumes "manager_disconnect svc s (registry w) = Inr r"
    and "\<forall>x. faults w 0 = Some x \<longrightarrow> isinstance_Exception x"
  shows "fst (disconnect svc s w) = Inr ()
       \<and> registry (snd (disconnect svc s w)) = r
       \<and> (r = deregister s (registry w) \<longrightarrow> s \<notin> dom (registry (snd (disconnect svc s w))))
       \<and> (faults w 0 = None \<longrightarrow>
            sent (snd (disconnect svc s w)) = sent w @
              [Emit ''message'' (PDict [(''type'', PStr ''status''),
                   (''data'', PStr (''User '' @ s @ '' has left.''))]) (SkipSid s)])
       \<and> (\<forall>x. faults w 0 = Some x \<longrightarrow>
            sent (snd (disconnect svc s w)) = sent w
          \<and> last (logged (snd (disconnect svc s w))) =
              (ERROR, [Lit ''Error during disconnect for SID '', Lit s, Lit '': '', Exc x]))
       \<and> (\<forall>c. receives c (SkipSid s) \<longleftrightarrow> c \<noteq> s)"
proof (cases "faults w 0")
  case None
  then show ?thesis
    using disconnect_ok [OF assms(1) None] by (simp add: deregister_def)
next
  case (Some x)
  then show ?thesis
    using disconnect_emit_raises [OF assms(1) Some] assms(2) by (simp add: deregister_def)
qed

theorem disconnect_notifies_others_witness:
  "manager_disconnect (spec_services ''AI'' [''Interesting!''] ''Hm.'' 0 ''T1'') ''a''
      (registry (quiet\<lparr>registry := [''a'' \<mapsto> ''T0'', ''b'' \<mapsto> ''T0'']\<rparr>))
     = Inr (deregister ''a'' [''a'' \<mapsto> ''T0'', ''b'' \<mapsto> ''T0''])
   \<and> faults (quiet\<lparr>registry := [''a'' \<mapsto> ''T0'', ''b'' \<mapsto> ''T0'']\<rparr>) 0 = None
   \<and> ''a'' \<notin> dom (registry (snd (disconnect (spec_services ''AI'' [''Interesting!''] ''Hm.'' 0 ''T1'')
                 ''a'' (quiet\<lparr>registry := [''a'' \<mapsto> ''T0'', ''b'' \<mapsto> ''T0'']\<rparr>))))
   \<and> sent (snd (disconnect (spec_services ''AI'' [''Interesting!''] ''Hm.'' 0 ''T1'')
                 ''a'' (quiet\<lparr>registry := [''a'' \<mapsto> ''T0'', ''b'' \<mapsto> ''T0'']\<rparr>))) =
       [Emit ''message'' (PDict [(''type'', PStr ''status''),
                   (''data'', PStr ''User a has left.'')]) (SkipSid ''a'')]"
  using disconnect_notifies_others [of "spec_services ''AI'' [''Interesting!''] ''Hm.'' 0 ''T1''"
      "''a''" "quiet\<lparr>registry := [''a'' \<mapsto> ''T0'', ''b'' \<mapsto> ''T0'']\<rparr>"
      "deregister ''a'' [''a'' \<mapsto> ''T0'', ''b'' \<mapsto> ''T0'']"]
  by (simp add: quiet_def spec_services_def deregister_def)

text \<open>
  Claim C4 as stated fails: the departure notice is a \<^verbatim>\<open>message\<close> status event, not a
  ChatMessage with \<open>is_ai\<close> true.
\<close>

theorem disconnect_notice_counterexample:
  "sent (snd (disconnect (spec_services ''AI'' [''Interesting!''] ''Hm.'' 0 ''T1'') ''a''
                 (quiet\<lparr>registry := [''a'' \<mapsto> ''T0'', ''b'' \<mapsto> ''T0'']\<rparr>))) =
       [Emit ''message'' (PDict [(''type'', PStr ''status''),
                   (''data'', PStr ''User a has left.'')]) (SkipSid ''a'')]
   \<and> \<not> list_ex is_ai_chat_message
         (sent (snd (disconnect (spec_services ''AI'' [''Interesting!''] ''Hm.'' 0 ''T1'') ''a''
                 (quiet\<lparr>registry := [''a'' \<mapsto> ''T0'', ''b'' \<mapsto> ''T0'']\<rparr>))))"
  by (simp add: disconnect_def io_defs quiet_def spec_services_def is_ai_chat_message_def
        is_chat_message_def)


lemma chat_message_first_emit_raises:
  assumes "isinstance_dict data" and "dict_contains ''text'' data"
    and "faults w 0 = Some x" and "isinstance_Exception x"
    and "\<forall>y. faults w 1 = Some y \<longrightarrow> isinstance_Exception y"
  shows "fst (chat_message svc now s data w) = Inr ()"
    and "sent (snd (chat_message svc now s data w)) = sent w @
          (if faults w 1 = None
           then [Emit ''error'' (if isinstance_SocketIOError x then server_error_payload
                                 else unexpected_error_payload) (Room s)]
           else [])"
    and "(ERROR, [Lit (if isinstance_SocketIOError x
                       then ''Socket.IO error processing chat_message for SID ''
                       else ''Unexpected error processing chat_message for SID ''),
                  Lit s, Lit '': '', Exc x]) \<in> set (logged (snd (chat_message svc now s data w)))"
  using assms
  by (cases "faults w 1"; auto simp add: chat_message_def io_defs Let_def)+

lemma chat_message_generator_raises:
  assumes "isinstance_dict data" and "dict_contains ''text'' data"
    and "faults w 0 = None"
    and "generate_dummy_response svc (dict_get data ''text'') s = Inl x"
    and "isinstance_Exception x"
    and "\<forall>y. faults w 1 = Some y \<longrightarrow> isinstance_Exception y"
  shows "fst (chat_message svc now s data w) = Inr ()"
    and "sent (snd (chat_message svc now s data w)) = sent w @
          [Emit ''new_message'' (PDict [(''sender_sid'', PStr s), (''text'', dict_get data ''text''),
                       (''timestamp'', PStr (now @ ''Z'')), (''is_ai'', PBool False)]) Everyone] @
          (if faults w 1 = None
           then [Emit ''error'' (if isinstance_SocketIOError x then server_error_payload
                                 else unexpected_error_payload) (Room s)]
           else [])"
    and "(ERROR, [Lit (if isinstance_SocketIOError x
                       then ''Socket.IO error processing chat_message for SID ''
                       else ''Unexpected error processing chat_message for SID ''),
                  Lit s, Lit '': '', Exc x]) \<in> set (logged (snd (chat_message svc now s data w)))"
  using assms
  by (cases "faults w 1"; auto simp add: chat_message_def io_defs Let_def)+

lemma chat_message_second_emit_raises:
  assumes "isinstance_dict data" and "dict_contains ''text'' data"
    and "faults w 0 = None"
    and "generate_dummy_response svc (dict_get data ''text'') s = Inr p"
    and "faults w 1 = Some x"
    and "isinstance_Exception x"
    and "\<forall>y. faults w 2 = Some y \<longrightarrow> isinstance_Exception y"
  shows "fst (chat_message svc now s data w) = Inr ()"
    and "sent (snd (chat_message svc now s data w)) = sent w @
          [Emit ''new_message'' (PDict [(''sender_sid'', PStr s), (''text'', dict_get data ''text''),
                       (''timestamp'', PStr (now @ ''Z'')), (''is_ai'', PBool False)]) Everyone] @
          (if faults w 2 = None
           then [Emit ''error'' (if isinstance_SocketIOError x then server_error_payload
                                 else unexpected_error_payload) (Room s)]
           else [])"
    and "(ERROR, [Lit (if isinstance_SocketIOError x
                       then ''Socket.IO error processing chat_message for SID ''
                       else ''Unexpected error processing chat_message for SID ''),
                  Lit s, Lit '': '', Exc x]) \<in> set (logged (snd (chat_message svc now s data w)))"
  using assms
  by (cases "faults w 2"; auto simp add: chat_message_def io_defs Let_def numeral_2_eq_2)+

lemma chat_message_first_emit_raises_log:
  assumes "isinstance_dict data" and "dict_contains ''text'' data"
    and "faults w 0 = Some x" and "isinstance_Exception x"
    and "\<forall>y. faults w 1 = Some y \<longrightarrow> isinstance_Exception y"
  shows "\<exists>pre. logged (snd (chat_message svc now s data w)) = logged w @ pre @
            [(ERROR, [Lit (if isinstance_SocketIOError x
                           then ''Socket.IO error processing chat_message for SID ''
                           else ''Unexpected error processing chat_message for SID ''),
                      Lit s, Lit '': '', Exc x])] @
            (case faults w 1 of None \<Rightarrow> []
             | Some y \<Rightarrow> [(ERROR, [Lit (if isinstance_SocketIOError x
                                     then ''Failed to emit server_error to SID ''
                                     else ''Failed to emit unexpected_error to SID ''),
                                Lit s, Lit '': '', Exc y])])
          \<and> (\<forall>r \<in> set pre. fst r = INFO)"
proof -
  have "logged (snd (chat_message svc now s data w)) = logged w @
          [(INFO, [Lit ''Message from '', Lit s, Lit '': '', Val data]),
           (INFO, [Lit ''Broadcasting user message from '', Lit s, Lit '': '',
                   Val (PDict [(''sender_sid'', PStr s), (''text'', dict_get data ''text''),
                       (''timestamp'', PStr (now @ ''Z'')), (''is_ai'', PBool False)])])] @
            [(ERROR, [Lit (if isinstance_SocketIOError x
                           then ''Socket.IO error processing chat_message for SID ''
                           else ''Unexpected error processing chat_message for SID ''),
                      Lit s, Lit '': '', Exc x])] @
            (case faults w 1 of None \<Rightarrow> []
             | Some y \<Rightarrow> [(ERROR, [Lit (if isinstance_SocketIOError x
                                     then ''Failed to emit server_error to SID ''
                                     else ''Failed to emit unexpected_error to SID ''),
                                Lit s, Lit '': '', Exc y])])"
    using assms
    by (cases "faults w 1") (auto simp add: chat_message_def io_defs Let_def)
  then show ?thesis
    by (intro exI [where x = "[(INFO, [Lit ''Message from '', Lit s, Lit '': '', Val data]),
           (INFO, [Lit ''Broadcasting user message from '', Lit s, Lit '': '',
                   Val (PDict [(''sender_sid'', PStr s), (''text'', dict_get data ''text''),
                       (''timestamp'', PStr (now @ ''Z'')), (''is_ai'', PBool False)])])]"]) simp
qed

lemma chat_message_generator_raises_log:
  assumes "isinstance_dict data" and "dict_contains ''text'' data"
    and "faults w 0 = None"
    and "generate_dummy_response svc (dict_get data ''text'') s = Inl x"
    and "isinstance_Exception x"
    and "\<forall>y. faults w 1 = Some y \<longrightarrow> isinstance_Exception y"
  shows "\<exists>pre. logged (snd (chat_message svc now s data w)) = logged w @ pre @
            [(ERROR, [Lit (if isinstance_SocketIOError x
                           then ''Socket.IO error processing chat_message for SID ''
                           else ''Unexpected error processing chat_message for SID ''),
                      Lit s, Lit '': '', Exc x])] @
            (case faults w 1 of None \<Rightarrow> []
             | Some y \<Rightarrow> [(ERROR, [Lit (if isinstance_SocketIOError x
                                     then ''Failed to emit server_error to SID ''
                                     else ''Failed to emit unexpected_error to SID ''),
                                Lit s, Lit '': '', Exc y])])
          \<and> (\<forall>r \<in> set pre. fst r = INFO)"
proof -
  have "logged (snd (chat_message svc now s data w)) = logged w @
          [(INFO, [Lit ''Message from '', Lit s, Lit '': '', Val data]),
           (INFO, [Lit ''Broadcasting user message from '', Lit s, Lit '': '',
                   Val (PDict [(''sender_sid'', PStr s), (''text'', dict_get data ''text''),
                       (''timestamp'', PStr (now @ ''Z'')), (''is_ai'', PBool False)])]),
           (INFO, [Lit ''Generating AI response for '', Lit s, Lit '' based on: '',
                   Val (dict_get data ''text'')])] @
            [(ERROR, [Lit (if isinstance_SocketIOError x
                           then ''Socket.IO error processing chat_message for SID ''
                           else ''Unexpected error processing chat_message for SID ''),
                      Lit s, Lit '': '', Exc x])] @
            (case faults w 1 of None \<Rightarrow> []
             | Some y \<Rightarrow> [(ERROR, [Lit (if isinstance_SocketIOError x
                                     then ''Failed to emit server_error to SID ''
                                     else ''Failed to emit unexpected_error to SID ''),
                                Lit s, Lit '': '', Exc y])])"
    using assms
    by (cases "faults w 1") (auto simp add: chat_message_def io_defs Let_def)
  then show ?thesis
    by (intro exI [where x = "[(INFO, [Lit ''Message from '', Lit s, Lit '': '', Val data]),
           (INFO, [Lit ''Broadcasting user message from '', Lit s, Lit '': '',
                   Val (PDict [(''sender_sid'', PStr s), (''text'', dict_get data ''text''),
                       (''timestamp'', PStr (now @ ''Z'')), (''is_ai'', PBool False)])]),
           (INFO, [Lit ''Generating AI response for '', Lit s, Lit '' based on: '',
                   Val (dict_get data ''text'')])]"]) simp
qed

lemma chat_message_second_emit_raises_log:
  assumes "isinstance_dict data" and "dict_contains ''text'' data"
    and "faults w 0 = None"
    and "generate_dummy_response svc (dict_get data ''text'') s = Inr p"
    and "faults w 1 = Some x"
    and "isinstance_Exception x"
    and "\<forall>y. faults w 2 = Some y \<longrightarrow> isinstance_Exception y"
  shows "\<exists>pre. logged (snd (chat_message svc now s data w)) = logged w @ pre @
            [(ERROR, [Lit (if isinstance_SocketIOError x
                           then ''Socket.IO error processing chat_message for SID ''
                           else ''Unexpected error processing chat_message for SID ''),
                      Lit s, Lit '': '', Exc x])] @
            (case faults w 2 of None \<Rightarrow> []
             | Some y \<Rightarrow> [(ERROR, [Lit (if isinstance_SocketIOError x
                                     then ''Failed to emit server_error to SID ''
                                     else ''Failed to emit unexpected_error to SID ''),
                                Lit s, Lit '': '', Exc y])])
          \<and> (\<forall>r \<in> set pre. fst r = INFO)"
proof -
  have "logged (snd (chat_message svc now s data w)) = logged w @
          [(INFO, [Lit ''Message from '', Lit s, Lit '': '', Val data]),
           (INFO, [Lit ''Broadcasting user message from '', Lit s, Lit '': '',
                   Val (PDict [(''sender_sid'', PStr s), (''text'', dict_get data ''text''),
                       (''timestamp'', PStr (now @ ''Z'')), (''is_ai'', PBool False)])]),
           (INFO, [Lit ''Generating AI response for '', Lit s, Lit '' based on: '',
                   Val (dict_get data ''text'')]),
           (INFO, [Lit ''Sending AI response to all clients: '', Val p])] @
            [(ERROR, [Lit (if isinstance_SocketIOError x
                           then ''Socket.IO error processing chat_message for SID ''
                           else ''Unexpected error processing chat_message for SID ''),
                      Lit s, Lit '': '', Exc x])] @
            (case faults w 2 of None \<Rightarrow> []
             | Some y \<Rightarrow> [(ERROR, [Lit (if isinstance_SocketIOError x
                                     then ''Failed to emit server_error to SID ''
                                     else ''Failed to emit unexpected_error to SID ''),
                                Lit s, Lit '': '', Exc y])])"
    using assms
    by (cases "faults w 2") (auto simp add: chat_message_def io_defs Let_def numeral_2_eq_2)
  then show ?thesis
    by (intro exI [where x = "[(INFO, [Lit ''Message from '', Lit s, Lit '': '', Val data]),
           (INFO, [Lit ''Broadcasting user message from '', Lit s, Lit '': '',
                   Val (PDict [(''sender_sid'', PStr s), (''text'', dict_get data ''text''),
                       (''timestamp'', PStr (now @ ''Z'')), (''is_ai'', PBool False)])]),
           (INFO, [Lit ''Generating AI response for '', Lit s, Lit '' based on: '',
                   Val (dict_get data ''text'')]),
           (INFO, [Lit ''Sending AI response to all clients: '', Val p])]"]) simp
qed

text \<open>
  Claim C5 (amended). Let the payload be valid and let the first failure of the handler be
  the exception \<open>x\<close>, an \<^verbatim>\<open>Exception\<close>, raised by the first broadcast, by the generator
  or by the second broadcast; \<open>k\<close> is the number of \<^verbatim>\<open>sio.emit\<close> calls made up to then,
  so that the \<open>k\<close>-th outcome of the transport is that of the error emit. Then the handler
  returns normally and logs the failure at level ERROR; the only events it sends are the
  user broadcast (when that succeeded) and, when the transport accepts it, one
  \<^verbatim>\<open>error\<close> event to the sender's room, whose kind is \<^verbatim>\<open>server_error\<close> for a
  \<^verbatim>\<open>SocketIOError\<close> and \<^verbatim>\<open>unexpected_error\<close> for any other \<^verbatim>\<open>Exception\<close>.
  The records the handler adds to the log are INFO records, then the ERROR record of the
  failure \<open>x\<close>, and then, exactly when the error emit raises some \<open>y\<close>, one more ERROR
  record saying that the emit failed with \<open>y\<close>: a failure of the error emit is logged, and
  nothing is sent for it.
\<close>

theorem chat_message_failure_reported:
  assumes "isinstance_dict data" and "dict_contains ''text'' data"
    and "isinstance_Exception x"
    and "faults w 0 = Some x \<and> k = 1
       \<or> faults w 0 = None \<and> generate_dummy_response svc (dict_get data ''text'') s = Inl x \<and> k = 1
       \<or> faults w 0 = None \<and> generate_dummy_response svc (dict_get data ''text'') s = Inr p
          \<and> faults w 1 = Some x \<and> k = 2"
    and "\<forall>y. faults w k = Some y \<longrightarrow> isinstance_Exception y"
  shows "fst (chat_message svc now s data w) = Inr ()
       \<and> sent (snd (chat_message svc now s data w)) = sent w @
          (if faults w 0 = None
           then [Emit ''new_message'' (PDict [(''sender_sid'', PStr s),
                       (''text'', dict_get data ''text''),
                       (''timestamp'', PStr (now @ ''Z'')), (''is_ai'', PBool False)]) Everyone]
           else []) @
          (if faults w k = None
           then [Emit ''error'' (if isinstance_SocketIOError x then server_error_payload
                                 else unexpected_error_payload) (Room s)]
           else [])
       \<and> (ERROR, [Lit (if isinstance_SocketIOError x
                       then ''Socket.IO error processing chat_message for SID ''
                       else ''Unexpected error processing chat_message for SID ''),
                  Lit s, Lit '': '', Exc x]) \<in> set (logged (snd (chat_message svc now s data w)))
       \<and> (\<forall>c. receives c (Room s) \<longleftrightarrow> c = s)
       \<and> (\<exists>pre. logged (snd (chat_message svc now s data w)) = logged w @ pre @
            [(ERROR, [Lit (if isinstance_SocketIOError x
                           then ''Socket.IO error processing chat_message for SID ''
                           else ''Unexpected error processing chat_message for SID ''),
                      Lit s, Lit '': '', Exc x])] @
            (case faults w k of None \<Rightarrow> []
             | Some y \<Rightarrow> [(ERROR, [Lit (if isinstance_SocketIOError x
                                     then ''Failed to emit server_error to SID ''
                                     else ''Failed to emit unexpected_error to SID ''),
                                Lit s, Lit '': '', Exc y])])
          \<and> (\<forall>r \<in> set pre. fst r = INFO))"
proof -
  consider (first) "faults w 0 = Some x" "k = 1"
    | (gen) "faults w 0 = None" "generate_dummy_response svc (dict_get data ''text'') s = Inl x" "k = 1"
    | (second) "faults w 0 = None" "generate_dummy_response svc (dict_get data ''text'') s = Inr p"
        "faults w 1 = Some x" "k = 2"
    using assms(4) by auto
  then show ?thesis
  proof cases
    case first
    with assms(5) have h: "\<forall>y. faults w 1 = Some y \<longrightarrow> isinstance_Exception y" by simp
    show ?thesis
      using chat_message_first_emit_raises [where svc = svc and now = now and s = s, OF assms(1,2) first(1) assms(3) h]
        chat_message_first_emit_raises_log [where svc = svc and now = now and s = s, OF assms(1,2) first(1) assms(3) h]
        first
      by simp
  next
    case gen
    with assms(5) have h: "\<forall>y. faults w 1 = Some y \<longrightarrow> isinstance_Exception y" by simp
    show ?thesis
      using chat_message_generator_raises [where now = now, OF assms(1,2) gen(1,2) assms(3) h]
        chat_message_generator_raises_log [where now = now, OF assms(1,2) gen(1,2) assms(3) h]
        gen
      by simp
  next
    case second
    with assms(5) have h: "\<forall>y. faults w 2 = Some y \<longrightarrow> isinstance_Exception y" by simp
    show ?thesis
      using chat_message_second_emit_raises [where now = now, OF assms(1,2) second(1,2,3) assms(3) h]
        chat_message_second_emit_raises_log [where now = now, OF assms(1,2) second(1,2,3) assms(3) h]
        second
      by simp
  qed
qed

theorem chat_message_failure_reported_witness:
  "generate_dummy_response
      ((spec_services ''AI'' [''Interesting!''] ''Hm.'' 0 ''T1'')
         \<lparr>generate_dummy_response := (\<lambda>txt c. Inl (SocketIOError ''emit failed''))\<rparr>)
      (dict_get (PDict [(''text'', PStr ''hi'')]) ''text'') ''a'' = Inl (SocketIOError ''emit failed'')
   \<and> isinstance_Exception (SocketIOError ''emit failed'')
   \<and> faults quiet 0 = None \<and> faults quiet 1 = None
   \<and> sent (snd (chat_message
        ((spec_services ''AI'' [''Interesting!''] ''Hm.'' 0 ''T1'')
           \<lparr>generate_dummy_response := (\<lambda>txt c. Inl (SocketIOError ''emit failed''))\<rparr>)
        ''T0'' ''a'' (PDict [(''text'', PStr ''hi'')]) quiet)) =
     [Emit ''new_message'' (PDict [(''sender_sid'', PStr ''a''), (''text'', PStr ''hi''),
                       (''timestamp'', PStr ''T0Z''), (''is_ai'', PBool False)]) Everyone,
      Emit ''error'' server_error_payload (Room ''a'')]
   \<and> map fst (logged (snd (chat_message
        ((spec_services ''AI'' [''Interesting!''] ''Hm.'' 0 ''T1'')
           \<lparr>generate_dummy_response := (\<lambda>txt c. Inl (SocketIOError ''emit failed''))\<rparr>)
        ''T0'' ''a'' (PDict [(''text'', PStr ''hi'')]) quiet))) = [INFO, INFO, INFO, ERROR]
   \<and> faults (quiet\<lparr>faults := (\<lambda>k. if k = 1 then Some (OtherException ''closed'') else None)\<rparr>) 1
       = Some (OtherException ''closed'')
   \<and> isinstance_Exception (OtherException ''closed'')
   \<and> sent (snd (chat_message
        ((spec_services ''AI'' [''Interesting!''] ''Hm.'' 0 ''T1'')
           \<lparr>generate_dummy_response := (\<lambda>txt c. Inl (SocketIOError ''emit failed''))\<rparr>)
        ''T0'' ''a'' (PDict [(''text'', PStr ''hi'')])
        (quiet\<lparr>faults := (\<lambda>k. if k = 1 then Some (OtherException ''closed'') else None)\<rparr>))) =
     [Emit ''new_message'' (PDict [(''sender_sid'', PStr ''a''), (''text'', PStr ''hi''),
                       (''timestamp'', PStr ''T0Z''), (''is_ai'', PBool False)]) Everyone]
   \<and> drop 3 (logged (snd (chat_message
        ((spec_services ''AI'' [''Interesting!''] ''Hm.'' 0 ''T1'')
           \<lparr>generate_dummy_response := (\<lambda>txt c. Inl (SocketIOError ''emit failed''))\<rparr>)
        ''T0'' ''a'' (PDict [(''text'', PStr ''hi'')])
        (quiet\<lparr>faults := (\<lambda>k. if k = 1 then Some (OtherException ''closed'') else None)\<rparr>)))) =
     [(ERROR, [Lit ''Socket.IO error processing chat_message for SID '', Lit ''a'', Lit '': '',
               Exc (SocketIOError ''emit failed'')]),
      (ERROR, [Lit ''Failed to emit server_error to SID '', Lit ''a'', Lit '': '',
               Exc (OtherException ''closed'')])]"
proof -
  have accepted: "map fst (logged (snd (chat_message
        ((spec_services ''AI'' [''Interesting!''] ''Hm.'' 0 ''T1'')
           \<lparr>generate_dummy_response := (\<lambda>txt c. Inl (SocketIOError ''emit failed''))\<rparr>)
        ''T0'' ''a'' (PDict [(''text'', PStr ''hi'')]) quiet))) = [INFO, INFO, INFO, ERROR]"
    by (simp add: chat_message_def io_defs Let_def quiet_def spec_services_def)
  have refused: "drop 3 (logged (snd (chat_message
        ((spec_services ''AI'' [''Interesting!''] ''Hm.'' 0 ''T1'')
           \<lparr>generate_dummy_response := (\<lambda>txt c. Inl (SocketIOError ''emit failed''))\<rparr>)
        ''T0'' ''a'' (PDict [(''text'', PStr ''hi'')])
        (quiet\<lparr>faults := (\<lambda>k. if k = 1 then Some (OtherException ''closed'') else None)\<rparr>)))) =
     [(ERROR, [Lit ''Socket.IO error processing chat_message for SID '', Lit ''a'', Lit '': '',
               Exc (SocketIOError ''emit failed'')]),
      (ERROR, [Lit ''Failed to emit server_error to SID '', Lit ''a'', Lit '': '',
               Exc (OtherException ''closed'')])]"
    by (simp add: chat_message_def io_defs Let_def quiet_def spec_services_def)
  show ?thesis
    using chat_message_failure_reported [of "PDict [(''text'', PStr ''hi'')]"
        "SocketIOError ''emit failed''" quiet 1
        "(spec_services ''AI'' [''Interesting!''] ''Hm.'' 0 ''T1'')
           \<lparr>generate_dummy_response := (\<lambda>txt c. Inl (SocketIOError ''emit failed''))\<rparr>"
        "''a''" PNone "''T0''"]
      chat_message_failure_reported [of "PDict [(''text'', PStr ''hi'')]"
        "SocketIOError ''emit failed''"
        "quiet\<lparr>faults := (\<lambda>k. if k = 1 then Some (OtherException ''closed'') else None)\<rparr>" 1
        "(spec_services ''AI'' [''Interesting!''] ''Hm.'' 0 ''T1'')
           \<lparr>generate_dummy_response := (\<lambda>txt c. Inl (SocketIOError ''emit failed''))\<rparr>"
        "''a''" PNone "''T0''"]
    unfolding accepted refused
    by (simp add: quiet_def spec_services_def)
qed

text \<open>
  An exception that is not an \<^verbatim>\<open>Exception\<close> passes both clauses and leaves the handler.
\<close>

lemma chat_message_base_exception_propagates:
  "fst (chat_message (spec_services ''AI'' [''Interesting!''] ''Hm.'' 0 ''T1'') ''T0'' ''a''
          (PDict [(''text'', PStr ''hi'')])
          (quiet\<lparr>faults := (\<lambda>k. if k = 0 then Some (BaseExceptionOnly ''CancelledError'') else None)\<rparr>))
     = Inl (BaseExceptionOnly ''CancelledError'')"
  by (simp add: chat_message_def io_defs Let_def quiet_def)

text \<open>
  Claim C5 as stated fails: when the generator raises an exception that is not a
  \<^verbatim>\<open>SocketIOError\<close>, the error event sent to the sender has kind \<^verbatim>\<open>unexpected_error\<close>.
\<close>

theorem chat_message_server_error_counterexample:
  "sent (snd (chat_message
        ((spec_services ''AI'' [''Interesting!''] ''Hm.'' 0 ''T1'')
           \<lparr>generate_dummy_response := (\<lambda>txt c. Inl (OtherException ''ValueError''))\<rparr>)
        ''T0'' ''a'' (PDict [(''text'', PStr ''hi'')]) quiet)) =
     [Emit ''new_message'' (PDict [(''sender_sid'', PStr ''a''), (''text'', PStr ''hi''),
                       (''timestamp'', PStr ''T0Z''), (''is_ai'', PBool False)]) Everyone,
      Emit ''error'' (PDict [(''type'', PStr ''unexpected_error''),
                             (''message'', PStr ''An unexpected server error occurred.'')])
           (Room ''a'')]"
  by (simp add: chat_message_def io_defs Let_def quiet_def spec_services_def
        unexpected_error_payload_def)

text \<open>
  Claim C6. An event whose name is none of \<^verbatim>\<open>connect\<close>, \<^verbatim>\<open>disconnect\<close>,
  \<^verbatim>\<open>chat_message\<close>, \<^verbatim>\<open>error\<close> goes to the catch-all handler, which returns normally
  and changes nothing but the log, to which it adds one record at level DEBUG: nothing is
  sent, the registry and the transport are as before.
\<close>

theorem unrecognized_event_only_logged:
  assumes "ev \<notin> set [''connect'', ''disconnect'', ''chat_message'', ''error'']"
  shows "trigger_event svc now ev s data w =
           (Inr (), w\<lparr>logged := logged w @
              [(DEBUG, [Lit (''Unhandled event '' @ [CHR 0x27]), Lit ev,
                        Lit ([CHR 0x27] @ '' from SID ''), Lit s,
                        Lit ([CHR 0x27] @ '' with data: ''), Val data])]\<rparr>)"
  using assms by (simp add: trigger_event_def any_event_def logger_def)

theorem unrecognized_event_only_logged_witness:
  "''typing'' \<notin> set [''connect'', ''disconnect'', ''chat_message'', ''error'']
   \<and> sent (snd (trigger_event (spec_services ''AI'' [''Interesting!''] ''Hm.'' 0 ''T1'') ''T0''
                  ''typing'' ''a'' PNone quiet)) = []
   \<and> map fst (logged (snd (trigger_event (spec_services ''AI'' [''Interesting!''] ''Hm.'' 0 ''T1'')
                  ''T0'' ''typing'' ''a'' PNone quiet))) = [DEBUG]"
  using unrecognized_event_only_logged [of "''typing''"
      "spec_services ''AI'' [''Interesting!''] ''Hm.'' 0 ''T1''" "''T0''" "''a''" PNone quiet]
  by (simp add: quiet_def)

text \<open>
  Claim C8. Registering the same connection id twice gives the registry that registering it
  once with the second time gives: the ids registered are those registered after the first
  call, and the id has exactly one entry, holding the second time.
\<close>

theorem register_twice:
  "register c t2 (register c t1 reg) = register c t2 reg
   \<and> dom (register c t2 (register c t1 reg)) = dom (register c t1 reg)
   \<and> {t. register c t2 (register c t1 reg) c = Some t} = {t2}"
  by (auto simp add: register_def)


lemma connect_new_chat_messages:
  "\<exists>new. sent (snd (connect svc now s environ w)) = sent w @ new
         \<and> (\<forall>e \<in> set new. is_chat_message e \<longrightarrow> origin_consistent svc s e)"
  by (cases "manager_connect svc s (registry w)"; cases "faults w 0"; cases "faults w 1";
      cases "faults w 2"; cases "faults w 3")
     (auto simp add: connect_def io_defs Let_def numeral_2_eq_2 numeral_3_eq_3
        is_chat_message_def origin_consistent_def is_ai_def sender_sid_def)

lemma disconnect_new_chat_messages:
  "\<exists>new. sent (snd (disconnect svc s w)) = sent w @ new
         \<and> (\<forall>e \<in> set new. \<not> is_chat_message e)"
  by (cases "manager_disconnect svc s (registry w)"; cases "faults w 0")
     (auto simp add: disconnect_def io_defs is_chat_message_def)

lemma chat_message_new_chat_messages:
  assumes "generate_dummy_response svc = spec_generate_dummy_response (ai_sid svc) pool fallback pick t"
  shows "\<exists>new. sent (snd (chat_message svc now s data w)) = sent w @ new
         \<and> (\<forall>e \<in> set new. is_chat_message e \<longrightarrow> origin_consistent svc s e)"
  using assms
  by (cases "faults w 0"; cases "faults w 1"; cases "faults w 2")
     (auto simp add: chat_message_def io_defs Let_def numeral_2_eq_2
        spec_generate_dummy_response_def
        is_chat_message_def origin_consistent_def is_ai_def sender_sid_def)

lemma trigger_event_new_chat_messages:
  assumes "generate_dummy_response svc = spec_generate_dummy_response (ai_sid svc) pool fallback pick t"
  shows "\<exists>new. sent (snd (trigger_event svc now ev s data w)) = sent w @ new
         \<and> (\<forall>e \<in> set new. is_chat_message e \<longrightarrow> origin_consistent svc s e)"
proof -
  have other: "sent (snd (error s data w)) = sent w @ []"
    "sent (snd (any_event ev s data w)) = sent w @ []"
    by (simp_all add: error_def any_event_def logger_def)
  show ?thesis
    using connect_new_chat_messages [of svc now s data w]
      disconnect_new_chat_messages [of svc s w]
      chat_message_new_chat_messages [OF assms, of now s data w] other
    unfolding trigger_event_def by fastforce
qed

text \<open>
  Claim C7. With the generator of the specification building its messages with the marker
  \<open>ai_sid\<close>, every ChatMessage a handler sends for connection \<open>s\<close>, whatever the event and
  whatever the transport does, is either flagged \<open>is_ai\<close> and carries the AI marker as
  sender, or is not flagged and carries \<open>s\<close>. When the marker is not the id of the
  connection, the flag is set exactly when the sender is not the connection.
\<close>

theorem chat_message_origin_flag:
  assumes "generate_dummy_response svc = spec_generate_dummy_response (ai_sid svc) pool fallback pick t"
  shows "\<exists>new. sent (snd (trigger_event svc now ev s data w)) = sent w @ new
         \<and> (\<forall>e \<in> set new. is_chat_message e \<longrightarrow>
               origin_consistent svc s e
             \<and> (s \<noteq> ai_sid svc \<longrightarrow> (is_ai e = PBool True \<longleftrightarrow> sender_sid e \<noteq> PStr s)))"
proof -
  obtain new where new: "sent (snd (trigger_event svc now ev s data w)) = sent w @ new"
    "\<forall>e \<in> set new. is_chat_message e \<longrightarrow> origin_consistent svc s e"
    using trigger_event_new_chat_messages [OF assms] by blast
  have "\<forall>e \<in> set new. is_chat_message e \<longrightarrow>
          (s \<noteq> ai_sid svc \<longrightarrow> (is_ai e = PBool True \<longleftrightarrow> sender_sid e \<noteq> PStr s))"
    using new(2) by (auto simp add: origin_consistent_def)
  with new show ?thesis by blast
qed

theorem chat_message_origin_flag_witness:
  "generate_dummy_response (spec_services ''AI'' [''Interesting!''] ''Hm.'' 0 ''T1'')
     = spec_generate_dummy_response (ai_sid (spec_services ''AI'' [''Interesting!''] ''Hm.'' 0 ''T1''))
         [''Interesting!''] ''Hm.'' 0 ''T1''
   \<and> ''a'' \<noteq> ai_sid (spec_services ''AI'' [''Interesting!''] ''Hm.'' 0 ''T1'')
   \<and> map is_chat_message
        (sent (snd (trigger_event (spec_services ''AI'' [''Interesting!''] ''Hm.'' 0 ''T1'') ''T0''
                      ''chat_message'' ''a'' (PDict [(''text'', PStr ''hi'')]) quiet)))
      = [True, True]
   \<and> list_all (origin_consistent (spec_services ''AI'' [''Interesting!''] ''Hm.'' 0 ''T1'') ''a'')
        (sent (snd (trigger_event (spec_services ''AI'' [''Interesting!''] ''Hm.'' 0 ''T1'') ''T0''
                      ''chat_message'' ''a'' (PDict [(''text'', PStr ''hi'')]) quiet)))"
proof -
  have sent: "sent (snd (trigger_event (spec_services ''AI'' [''Interesting!''] ''Hm.'' 0 ''T1'') ''T0''
                      ''chat_message'' ''a'' (PDict [(''text'', PStr ''hi'')]) quiet)) =
     [Emit ''new_message'' (PDict [(''sender_sid'', PStr ''a''), (''text'', PStr ''hi''),
                       (''timestamp'', PStr ''T0Z''), (''is_ai'', PBool False)]) Everyone,
      Emit ''new_message'' (PDict [(''sender_sid'', PStr ''AI''), (''text'', PStr ''Interesting!''),
                       (''timestamp'', PStr ''T1''), (''is_ai'', PBool True)]) Everyone]"
    by (simp add: trigger_event_def chat_message_def io_defs Let_def quiet_def spec_services_def
        spec_generate_dummy_response_def generate_def)
  have gen: "generate_dummy_response (spec_services ''AI'' [''Interesting!''] ''Hm.'' 0 ''T1'')
     = spec_generate_dummy_response (ai_sid (spec_services ''AI'' [''Interesting!''] ''Hm.'' 0 ''T1''))
         [''Interesting!''] ''Hm.'' 0 ''T1''"
    by (simp add: spec_services_def)
  show ?thesis
    using chat_message_origin_flag [OF gen, of "''T0''" "''chat_message''" "''a''"
        "PDict [(''text'', PStr ''hi'')]" quiet] gen
    unfolding sent
    by (simp add: is_chat_message_def origin_consistent_def is_ai_def sender_sid_def
          spec_services_def)
qed

section \<open>Frontend: what the message input submits\<close>

lemma last_dropWhile:
  "dropWhile P xs \<noteq> [] \<Longrightarrow> last (dropWhile P xs) = last xs"
  by (induction xs) (auto split: if_splits)

lemma trim_eq_Nil: "trim s = [] \<longleftrightarrow> list_all is_white_space s"
proof -
  have "dropWhile is_white_space (rev (dropWhile is_white_space s)) = []
          \<longleftrightarrow> dropWhile is_white_space s = []"
  proof
    assume a: "dropWhile is_white_space (rev (dropWhile is_white_space s)) = []"
    show "dropWhile is_white_space s = []"
    proof (rule ccontr)
      assume n: "dropWhile is_white_space s \<noteq> []"
      then have "\<not> is_white_space (hd (dropWhile is_white_space s))"
        by (rule hd_dropWhile)
      moreover have "hd (dropWhile is_white_space s) \<in> set (rev (dropWhile is_white_space s))"
        using n by simp
      ultimately show False
        using a by auto
    qed
  next
    assume "dropWhile is_white_space s = []"
    then show "dropWhile is_white_space (rev (dropWhile is_white_space s)) = []"
      by (simp only: rev.simps dropWhile.simps)
  qed
  then show ?thesis
    by (simp add: trim_def list_all_iff)
qed

lemma trim_ends:
  assumes "trim s \<noteq> []"
  shows "\<not> is_white_space (hd (trim s))" and "\<not> is_white_space (last (trim s))"
proof -
  let ?ys = "dropWhile is_white_space s"
  let ?zs = "dropWhile is_white_space (rev ?ys)"
  have zs: "?zs \<noteq> []" using assms by (simp add: trim_def)
  have ys: "?ys \<noteq> []"
  proof
    assume "?ys = []"
    then have "?zs = []" by (simp only: rev.simps dropWhile.simps)
    with zs show False by simp
  qed
  have "hd (trim s) = last ?zs" using zs by (simp add: trim_def hd_rev)
  also have "\<dots> = last (rev ?ys)" using zs by (rule last_dropWhile)
  also have "\<dots> = hd ?ys" using ys by (simp add: last_rev)
  finally show "\<not> is_white_space (hd (trim s))" using hd_dropWhile [OF ys] by simp
  have "last (trim s) = hd ?zs" using zs by (simp add: trim_def last_rev)
  then show "\<not> is_white_space (last (trim s))" using hd_dropWhile [OF zs] by simp
qed

text \<open>
  Claim C10. On a form submission \<^verbatim>\<open>onSendMessage\<close> is called exactly when the trimmed
  text is not empty, that is when the text is not made of white space only; it is called
  once, with the trimmed text, which is not empty, is not white space only and neither
  starts nor ends with white space, and the text field is then the empty string. Otherwise
  no call is made and the field keeps its text.
\<close>

theorem handleSubmit_sends_trimmed:
  "(trim (text_state c) \<noteq> [] \<longrightarrow>
      onSendMessage_calls (handleSubmit c) = onSendMessage_calls c @ [trim (text_state c)]
    \<and> text_state (handleSubmit c) = []
    \<and> \<not> list_all is_white_space (trim (text_state c))
    \<and> \<not> is_white_space (hd (trim (text_state c)))
    \<and> \<not> is_white_space (last (trim (text_state c))))
   \<and> (trim (text_state c) = [] \<longrightarrow>
        onSendMessage_calls (handleSubmit c) = onSendMessage_calls c
      \<and> text_state (handleSubmit c) = text_state c)
   \<and> (trim (text_state c) = [] \<longleftrightarrow> list_all is_white_space (text_state c))
   \<and> default_prevented (handleSubmit c)"
proof -
  have "\<not> list_all is_white_space (trim (text_state c))" if "trim (text_state c) \<noteq> []"
    using trim_ends(1) [OF that] that by (cases "trim (text_state c)") auto
  then show ?thesis
    using trim_ends [of "text_state c"] trim_eq_Nil [of "text_state c"]
    by (simp add: handleSubmit_def Let_def)
qed

theorem handleSubmit_sends_trimmed_witness:
  "trim [0x20, 0x68, 0x69, 0x20] \<noteq> []
   \<and> onSendMessage_calls (handleSubmit
        \<lparr>text_state = [0x20, 0x68, 0x69, 0x20], onSendMessage_calls = [], default_prevented = False\<rparr>)
      = [[0x68, 0x69]]
   \<and> text_state (handleSubmit
        \<lparr>text_state = [0x20, 0x68, 0x69, 0x20], onSendMessage_calls = [], default_prevented = False\<rparr>)
      = []
   \<and> trim [0x20, 0x09, 0x3000] = []
   \<and> onSendMessage_calls (handleSubmit
        \<lparr>text_state = [0x20, 0x09, 0x3000], onSendMessage_calls = [], default_prevented = False\<rparr>)
      = []"
proof -
  have t1: "trim [0x20, 0x68, 0x69, 0x20] = [0x68, 0x69]"
    by (simp add: trim_def is_white_space_def)
  have t2: "trim [0x20, 0x09, 0x3000] = []"
    by (simp add: trim_def is_white_space_def)
  show ?thesis
    using handleSubmit_sends_trimmed [of
        "\<lparr>text_state = [0x20, 0x68, 0x69, 0x20], onSendMessage_calls = [], default_prevented = False\<rparr>"]
      handleSubmit_sends_trimmed [of
        "\<lparr>text_state = [0x20, 0x09, 0x3000], onSendMessage_calls = [], default_prevented = False\<rparr>"]
    by (simp add: t1 t2)
qed

end
